theory Spec2Isabelle
  imports Complex_Main
begin

section \<open>Values of the API layer\<close>

text \<open>
  The development embeds the NestJS API of the patent explorer: the \<open>PatentController\<close>
  (\<open>controllers/patent.controller\<close>), the \<open>WorkspaceGuard\<close> and the TypeORM entities the
  controller reads and writes.

  JavaScript numbers are IEEE doubles. The scores of the controller are built from the
  decimal literals \<open>0.8\<close>, \<open>0.1\<close>, \<open>1.0\<close>, \<open>0.75\<close>, \<open>0.25\<close>, \<open>0.7\<close> with one
  multiplication by an array index and one subtraction; the model computes them in exact
  rational arithmetic, so \<open>0.8 - index * 0.1\<close> is \<open>4/5 - index/10\<close>. The double result
  differs from the rational one by rounding only, and rounding is monotone: up to index 8
  the product \<open>index * 0.1\<close> is at most the double \<open>8 * 0.1\<close>, which is the double
  \<open>0.8\<close>, so the score is not negative (and exactly 0 at index 8); from index 9 on the
  product is at least the double \<open>0.9\<close>, so the score is negative; and no score exceeds
  the double \<open>0.8\<close>. Every comparison of a score with 0, 0.8 or 1 below therefore has
  the same truth value for the doubles; \<open>1 - 0.75\<close> is the double \<open>0.25\<close> exactly.
  Identifiers, column values of type uuid and texts are strings; \<open>claim_num\<close> and the
  integer columns are integers; a date or timestamp is a number of milliseconds.
\<close>

type_synonym uuid = string
type_synonym timestamp = nat

datatype json =
    JNull
  | JBool bool
  | JNum rat
  | JStr string
  | JArr "json list"
  | JObj "(string \<times> json) list"

datatype HttpStatus = BAD_REQUEST | FORBIDDEN | NOT_FOUND | INTERNAL_SERVER_ERROR

text \<open>\<open>new HttpException(message, status)\<close>; a \<open>ForbiddenException(message)\<close> is the
  exception with status \<open>FORBIDDEN\<close>.\<close>

datatype http_error = HttpException string HttpStatus

fun message :: "http_error \<Rightarrow> string" where
  "message (HttpException m s) = m"

text \<open>Template literals print a number in decimal.\<close>

definition digit_char :: "nat \<Rightarrow> char" where
  "digit_char d = ''0123456789'' ! (d mod 10)"

fun show_nat :: "nat \<Rightarrow> string" where
  "show_nat n = (if n < 10 then [digit_char n] else show_nat (n div 10) @ [digit_char n])"

declare show_nat.simps [simp del]

definition show_int :: "int \<Rightarrow> string" where
  "show_int i = (if i < 0 then CHR ''-'' # show_nat (nat (- i)) else show_nat (nat i))"

text \<open>\<open>s.substr(start, length)\<close> for a start and a length that are not negative: at
  most \<open>length\<close> characters from position \<open>start\<close>, fewer when the string ends.\<close>

definition substr :: "string \<Rightarrow> nat \<Rightarrow> nat \<Rightarrow> string" where
  "substr s start len = take len (drop start s)"

text \<open>JavaScript truthiness of an optional string: \<open>undefined\<close> and \<open>''\<close> are falsy.
  \<open>a || b\<close> is \<open>a\<close> when \<open>a\<close> is truthy and \<open>b\<close> otherwise.\<close>

fun truthy :: "string option \<Rightarrow> bool" where
  "truthy None = False"
| "truthy (Some s) = (s \<noteq> [])"

definition js_or :: "string option \<Rightarrow> string option \<Rightarrow> string option" where
  "js_or a b = (if truthy a then a else b)"

section \<open>Entities\<close>

text \<open>The columns of each entity the controller and the guard touch. Embeddings are
  nullable vectors; no handler reads them.\<close>

record Patent =
  p_id :: uuid
  p_workspace_id :: uuid
  p_pub_number :: "string option"
  p_prio_date :: "timestamp option"
  p_family_id :: "string option"
  p_title :: string
  p_abstract :: "string option"
  p_assignees :: "string list"
  p_inventors :: "string list"
  p_cpc_codes :: "string list"

record Claim =
  c_id :: uuid
  c_patent_id :: uuid
  c_claim_number :: int
  c_is_independent :: bool
  c_text :: string
  c_embedding :: "rat list option"

record Clause =
  cl_id :: uuid
  cl_claim_id :: uuid
  cl_clause_index :: int
  cl_clause_type :: "string option"
  cl_text :: string
  cl_embedding :: "rat list option"

record Passage =
  ps_id :: uuid
  ps_patent_id :: uuid
  ps_passage_index :: int
  ps_text :: string
  ps_embedding :: "rat list option"

record Membership =
  m_user_id :: uuid
  m_workspace_id :: uuid
  m_role :: string

record AuditLog =
  a_workspace_id :: uuid
  a_user_id :: uuid
  a_action :: string
  a_resource_type :: string
  a_resource_id :: "uuid option"
  a_details :: json

text \<open>One mock search result (\<open>getMockSearchResults\<close>) and a stored search session.\<close>

record search_patent =
  sp_id :: uuid
  sp_title :: string
  sp_abstract :: "string option"
  sp_prio_date :: "timestamp option"

record search_result =
  sr_patent_id :: uuid
  sr_score :: rat
  sr_search_type :: string
  sr_patent :: search_patent

record SearchSession =
  s_workspace_id :: uuid
  s_user_id :: uuid
  s_query :: string
  s_filters :: json
  s_results :: "search_result list"

text \<open>The database: one list of rows per table, in the order the database returns them.
  The store keeps every row it is given; it does not model the schema's constraints.\<close>

record db =
  patents :: "Patent list"
  claims :: "Claim list"
  clauses :: "Clause list"
  passages :: "Passage list"
  memberships :: "Membership list"
  search_sessions :: "SearchSession list"
  audit_log :: "AuditLog list"

text \<open>What a handler reads from outside the request and the database: the clock
  (\<open>Date.now()\<close>, \<open>new Date()\<close>), the text of \<open>Math.random().toString(36)\<close> and the uuid
  the database generates for a new row.\<close>

record env =
  e_now :: timestamp
  e_random36 :: string
  e_uuid :: uuid

section \<open>Repository operations\<close>

text \<open>\<open>patentRepository.findOne({ where: { id, workspace_id } })\<close>\<close>

definition findOne_patent :: "db \<Rightarrow> uuid \<Rightarrow> uuid \<Rightarrow> Patent option" where
  "findOne_patent st pid ws =
     find (\<lambda>p. p_id p = pid \<and> p_workspace_id p = ws) (patents st)"

text \<open>\<open>membershipRepository.findOne({ where: { user_id, workspace_id } })\<close>\<close>

definition findOne_membership :: "db \<Rightarrow> uuid \<Rightarrow> uuid \<Rightarrow> Membership option" where
  "findOne_membership st uid ws =
     find (\<lambda>m. m_user_id m = uid \<and> m_workspace_id m = ws) (memberships st)"

text \<open>\<open>auditLogRepository.save(row)\<close>\<close>

definition save_audit :: "db \<Rightarrow> AuditLog \<Rightarrow> db" where
  "save_audit st row = st\<lparr>audit_log := audit_log st @ [row]\<rparr>"

section \<open>Requests and responses of compare and novelty\<close>

record CompareRequest =
  cq_patent_id :: uuid
  cq_claim_num :: int
  cq_refs :: "uuid list"
  cq_workspace_id :: uuid

record NoveltyRequest =
  nq_patent_id :: uuid
  nq_claim_num :: int
  nq_workspace_id :: uuid

record alignment =
  clause_index :: nat
  clause_text :: string
  reference_patent_id :: uuid
  reference_clause_text :: string
  similarity_score :: rat
  alignment_type :: string

record ComparisonResponse =
  comparison_id :: string
  cr_patent_id :: uuid
  cr_claim_num :: int
  alignments :: "alignment list"
  cr_status :: string

record clause_detail =
  cd_clause_index :: nat
  cd_clause_text :: string
  cd_novelty_score :: rat
  cd_confidence :: string

record mock_novelty =
  mn_novelty_score :: rat
  mn_obviousness_score :: rat
  mn_confidence_band :: string
  mn_clause_details :: "clause_detail list"

record NoveltyResponse =
  novelty_id :: string
  nr_patent_id :: uuid
  nr_claim_num :: int
  novelty_score :: rat
  obviousness_score :: rat
  confidence_band :: string
  clause_details :: "clause_detail list"
  nr_status :: string

section \<open>The controller: helpers\<close>

definition hasWorkspaceAccess :: "uuid \<Rightarrow> uuid \<Rightarrow> bool" where
  "hasWorkspaceAccess user_id workspace_id = True"

text \<open>The template \<open>compare_${Date.now()}_${Math.random().toString(36).substr(2, 9)}\<close> of
  \<open>generateComparisonId\<close>; the other id generators differ in the prefix only.\<close>

definition generateId :: "string \<Rightarrow> env \<Rightarrow> string" where
  "generateId prefix e = prefix @ show_nat (e_now e) @ ''_'' @ substr (e_random36 e) 2 9"

definition generateComparisonId :: "env \<Rightarrow> string" where
  "generateComparisonId e = generateId ''compare_'' e"

definition generateNoveltyId :: "env \<Rightarrow> string" where
  "generateNoveltyId e = generateId ''novelty_'' e"

text \<open>\<open>refs.map((ref_id, index) => ({ ... }))\<close>: one element per reference id, built
  from the id and its position only.\<close>

definition mock_alignment :: "uuid \<Rightarrow> nat \<times> uuid \<Rightarrow> alignment" where
  "mock_alignment patent_id ir =
     (case ir of (index, ref_id) \<Rightarrow>
       \<lparr> clause_index = index,
         clause_text = ''Mock clause '' @ show_nat (index + 1) @ '' for patent '' @ patent_id,
         reference_patent_id = ref_id,
         reference_clause_text = ''Mock reference clause '' @ show_nat (index + 1),
         similarity_score = 8 / 10 - of_nat index * (1 / 10),
         alignment_type = (if index = 0 then ''high_similarity'' else ''medium_similarity'') \<rparr>)"

definition getMockAlignments :: "uuid \<Rightarrow> int \<Rightarrow> uuid list \<Rightarrow> alignment list" where
  "getMockAlignments patent_id claim_num refs =
     map (mock_alignment patent_id) (enumerate 0 refs)"

definition getMockNovelty :: "uuid \<Rightarrow> int \<Rightarrow> mock_novelty" where
  "getMockNovelty patent_id claim_num =
     \<lparr> mn_novelty_score = 75 / 100,
       mn_obviousness_score = 25 / 100,
       mn_confidence_band = ''high'',
       mn_clause_details =
         [ \<lparr> cd_clause_index = 0, cd_clause_text = ''Mock clause 1'',
             cd_novelty_score = 8 / 10, cd_confidence = ''high'' \<rparr>,
           \<lparr> cd_clause_index = 1, cd_clause_text = ''Mock clause 2'',
             cd_novelty_score = 7 / 10, cd_confidence = ''medium'' \<rparr> ] \<rparr>"

text \<open>The \<open>catch\<close> of compare, novelty and the other POST and list handlers: whatever the
  \<open>try\<close> block threw is thrown again as an internal server error whose message is the
  handler's prefix followed by the message of the caught error.\<close>

definition rethrow :: "string \<Rightarrow> http_error + 'a \<Rightarrow> http_error + 'a" where
  "rethrow prefix r =
     (case r of
        Inl err \<Rightarrow> Inl (HttpException (prefix @ message err) INTERNAL_SERVER_ERROR)
      | Inr v \<Rightarrow> Inr v)"

section \<open>The controller: compare and novelty\<close>

text \<open>The \<open>try\<close> block of \<open>comparePatent\<close>. \<open>publishAlignmentEvent\<close> only writes a line
  to the console. The handler runs behind the guards, so \<open>req.user.id\<close> is the id of the
  authenticated user.\<close>

definition comparePatent_try ::
  "env \<Rightarrow> db \<Rightarrow> CompareRequest \<Rightarrow> uuid \<Rightarrow> http_error + (ComparisonResponse \<times> db)" where
  "comparePatent_try e st compareRequest user_id =
     (if \<not> hasWorkspaceAccess user_id (cq_workspace_id compareRequest)
      then Inl (HttpException ''Access denied to workspace'' FORBIDDEN)
      else
        (case findOne_patent st (cq_patent_id compareRequest) (cq_workspace_id compareRequest) of
           None \<Rightarrow> Inl (HttpException ''Patent not found or access denied'' NOT_FOUND)
         | Some patent \<Rightarrow>
             (let cid = generateComparisonId e;
                  mockAlignments =
                    getMockAlignments (cq_patent_id compareRequest)
                      (cq_claim_num compareRequest) (cq_refs compareRequest);
                  st' = save_audit st
                    \<lparr> a_workspace_id = cq_workspace_id compareRequest,
                      a_user_id = user_id,
                      a_action = ''patent_compare'',
                      a_resource_type = ''comparison'',
                      a_resource_id = None,
                      a_details = JObj
                        [ (''patent_id'', JStr (cq_patent_id compareRequest)),
                          (''claim_num'', JNum (of_int (cq_claim_num compareRequest))),
                          (''refs'', JArr (map JStr (cq_refs compareRequest))),
                          (''comparison_id'', JStr cid) ] \<rparr>
              in Inr
                (\<lparr> comparison_id = cid,
                   cr_patent_id = cq_patent_id compareRequest,
                   cr_claim_num = cq_claim_num compareRequest,
                   alignments = mockAlignments,
                   cr_status = ''completed'' \<rparr>, st'))))"

definition comparePatent ::
  "env \<Rightarrow> db \<Rightarrow> CompareRequest \<Rightarrow> uuid \<Rightarrow> http_error + (ComparisonResponse \<times> db)" where
  "comparePatent e st compareRequest user_id =
     rethrow ''Failed to compare patent: '' (comparePatent_try e st compareRequest user_id)"

text \<open>The \<open>try\<close> block of \<open>calculateNovelty\<close>.\<close>

definition calculateNovelty_try ::
  "env \<Rightarrow> db \<Rightarrow> NoveltyRequest \<Rightarrow> uuid \<Rightarrow> http_error + (NoveltyResponse \<times> db)" where
  "calculateNovelty_try e st noveltyRequest user_id =
     (if \<not> hasWorkspaceAccess user_id (nq_workspace_id noveltyRequest)
      then Inl (HttpException ''Access denied to workspace'' FORBIDDEN)
      else
        (case findOne_patent st (nq_patent_id noveltyRequest) (nq_workspace_id noveltyRequest) of
           None \<Rightarrow> Inl (HttpException ''Patent not found or access denied'' NOT_FOUND)
         | Some patent \<Rightarrow>
             (let nid = generateNoveltyId e;
                  mockNovelty =
                    getMockNovelty (nq_patent_id noveltyRequest) (nq_claim_num noveltyRequest);
                  st' = save_audit st
                    \<lparr> a_workspace_id = nq_workspace_id noveltyRequest,
                      a_user_id = user_id,
                      a_action = ''patent_novelty'',
                      a_resource_type = ''novelty'',
                      a_resource_id = None,
                      a_details = JObj
                        [ (''patent_id'', JStr (nq_patent_id noveltyRequest)),
                          (''claim_num'', JNum (of_int (nq_claim_num noveltyRequest))),
                          (''novelty_id'', JStr nid) ] \<rparr>
              in Inr
                (\<lparr> novelty_id = nid,
                   nr_patent_id = nq_patent_id noveltyRequest,
                   nr_claim_num = nq_claim_num noveltyRequest,
                   novelty_score = mn_novelty_score mockNovelty,
                   obviousness_score = mn_obviousness_score mockNovelty,
                   confidence_band = mn_confidence_band mockNovelty,
                   clause_details = mn_clause_details mockNovelty,
                   nr_status = ''completed'' \<rparr>, st'))))"

definition calculateNovelty ::
  "env \<Rightarrow> db \<Rightarrow> NoveltyRequest \<Rightarrow> uuid \<Rightarrow> http_error + (NoveltyResponse \<times> db)" where
  "calculateNovelty e st noveltyRequest user_id =
     rethrow ''Failed to calculate novelty: '' (calculateNovelty_try e st noveltyRequest user_id)"

section \<open>The controller: the other guarded handlers\<close>

text \<open>The two queries whose paging the ORM and the database decide
  (\<open>find({ where: { workspace_id }, take: k })\<close> and the query builder's
  \<open>getManyAndCount()\<close>) are parameters of the handlers that run them. A query of the
  builder is the record of what \<open>getPatents\<close> put into it: the workspace, the
  \<open>ILIKE\<close> pattern on title and abstract if any, newest first, \<open>skip\<close> and \<open>take\<close>.\<close>

record patent_query =
  q_workspace_id :: uuid
  q_search :: "string option"
  q_skip :: int
  q_take :: int

record orm =
  find_take :: "db \<Rightarrow> uuid \<Rightarrow> int \<Rightarrow> Patent list"
  getManyAndCount :: "db \<Rightarrow> patent_query \<Rightarrow> Patent list \<times> nat"

record ingest_metadata =
  md_title :: "string option"
  md_abstract :: "string option"
  md_prio_date :: "timestamp option"
  md_pub_date :: "timestamp option"
  md_family_id :: "string option"
  md_cpc_codes :: "string list option"
  md_assignees :: "string list option"
  md_inventors :: "string list option"

record PatentIngestRequest =
  iq_file_url :: string
  iq_file_type :: string
  iq_workspace_id :: uuid
  iq_metadata :: "ingest_metadata option"

record ingest_response =
  ir_patent_id :: uuid
  ir_status :: string

definition opt_json :: "('a \<Rightarrow> json) \<Rightarrow> string \<Rightarrow> 'a option \<Rightarrow> (string \<times> json) list" where
  "opt_json f key v = (case v of None \<Rightarrow> [] | Some x \<Rightarrow> [(key, f x)])"

definition metadata_json :: "ingest_metadata option \<Rightarrow> json" where
  "metadata_json metadata =
     (case metadata of
        None \<Rightarrow> JNull
      | Some md \<Rightarrow> JObj
          (opt_json JStr ''title'' (md_title md) @
           opt_json JStr ''abstract'' (md_abstract md) @
           opt_json (\<lambda>d. JNum (of_nat d)) ''prio_date'' (md_prio_date md) @
           opt_json (\<lambda>d. JNum (of_nat d)) ''pub_date'' (md_pub_date md) @
           opt_json JStr ''family_id'' (md_family_id md) @
           opt_json (\<lambda>xs. JArr (map JStr xs)) ''cpc_codes'' (md_cpc_codes md) @
           opt_json (\<lambda>xs. JArr (map JStr xs)) ''assignees'' (md_assignees md) @
           opt_json (\<lambda>xs. JArr (map JStr xs)) ''inventors'' (md_inventors md)))"

text \<open>\<open>metadata?.field\<close> of an optional metadata object, and \<open>a || d\<close> for an optional
  string \<open>a\<close> and a default \<open>d\<close>.\<close>

definition md_get :: "(ingest_metadata \<Rightarrow> 'a option) \<Rightarrow> ingest_metadata option \<Rightarrow> 'a option" where
  "md_get field metadata = (case metadata of None \<Rightarrow> None | Some md \<Rightarrow> field md)"

definition or_default :: "string option \<Rightarrow> string \<Rightarrow> string" where
  "or_default a d = (case a of None \<Rightarrow> d | Some s \<Rightarrow> if s = [] then d else s)"

text \<open>The \<open>try\<close> block of \<open>ingestPatent\<close>. \<open>create\<close> copies the columns of the entity (the
  \<open>pub_date\<close> and \<open>metadata\<close> keys name no column), \<open>save\<close> stores the row under the
  uuid the database generates, \<open>publishIngestEvent\<close> only writes to the console.\<close>

definition ingestPatent_try ::
  "env \<Rightarrow> db \<Rightarrow> PatentIngestRequest \<Rightarrow> uuid \<Rightarrow> http_error + (ingest_response \<times> db)" where
  "ingestPatent_try e st ingestRequest user_id =
     (if \<not> hasWorkspaceAccess user_id (iq_workspace_id ingestRequest)
      then Inl (HttpException ''Access denied to workspace'' FORBIDDEN)
      else
        (let metadata = iq_metadata ingestRequest;
             savedPatent =
               \<lparr> p_id = e_uuid e,
                 p_workspace_id = iq_workspace_id ingestRequest,
                 p_pub_number = None,
                 p_prio_date =
                   (case md_get md_prio_date metadata of
                      Some d \<Rightarrow> Some d | None \<Rightarrow> Some (e_now e)),
                 p_family_id = md_get md_family_id metadata,
                 p_title = or_default (md_get md_title metadata) ''Untitled Patent'',
                 p_abstract = Some (or_default (md_get md_abstract metadata) []),
                 p_assignees =
                   (case md_get md_assignees metadata of Some xs \<Rightarrow> xs | None \<Rightarrow> []),
                 p_inventors =
                   (case md_get md_inventors metadata of Some xs \<Rightarrow> xs | None \<Rightarrow> []),
                 p_cpc_codes =
                   (case md_get md_cpc_codes metadata of Some xs \<Rightarrow> xs | None \<Rightarrow> []) \<rparr>;
             st1 = st\<lparr>patents := patents st @ [savedPatent]\<rparr>;
             st2 = save_audit st1
               \<lparr> a_workspace_id = iq_workspace_id ingestRequest,
                 a_user_id = user_id,
                 a_action = ''patent_ingest'',
                 a_resource_type = ''patent'',
                 a_resource_id = Some (p_id savedPatent),
                 a_details = JObj
                   [ (''file_url'', JStr (iq_file_url ingestRequest)),
                     (''file_type'', JStr (iq_file_type ingestRequest)),
                     (''metadata'', metadata_json metadata) ] \<rparr>
         in Inr (\<lparr> ir_patent_id = p_id savedPatent, ir_status = ''processing'' \<rparr>, st2)))"

definition ingestPatent ::
  "env \<Rightarrow> db \<Rightarrow> PatentIngestRequest \<Rightarrow> uuid \<Rightarrow> http_error + (ingest_response \<times> db)" where
  "ingestPatent e st ingestRequest user_id =
     rethrow ''Failed to ingest patent: '' (ingestPatent_try e st ingestRequest user_id)"

record patents_page =
  pg_patents :: "Patent list"
  pg_total :: nat
  pg_page :: int
  pg_limit :: int

text \<open>The \<open>try\<close> block of \<open>getPatents\<close> (the list handler); it writes nothing. The
  search filter is added when \<open>search\<close> is truthy.\<close>

definition getPatents_try ::
  "orm \<Rightarrow> db \<Rightarrow> uuid \<Rightarrow> int \<Rightarrow> int \<Rightarrow> string option \<Rightarrow> uuid \<Rightarrow> http_error + patents_page" where
  "getPatents_try repo st workspace_id page limit search user_id =
     (let offset = (page - 1) * limit in
      if \<not> hasWorkspaceAccess user_id workspace_id
      then Inl (HttpException ''Access denied to workspace'' FORBIDDEN)
      else
        (let query =
               \<lparr> q_workspace_id = workspace_id,
                 q_search =
                   (case search of
                      None \<Rightarrow> None
                    | Some s \<Rightarrow> if s = [] then None else Some (''%'' @ s @ ''%'')),
                 q_skip = offset,
                 q_take = limit \<rparr>
         in (case getManyAndCount repo st query of
               (found, n) \<Rightarrow>
                 Inr \<lparr> pg_patents = found, pg_total = n, pg_page = page, pg_limit = limit \<rparr>)))"

definition getPatents ::
  "orm \<Rightarrow> db \<Rightarrow> uuid \<Rightarrow> int \<Rightarrow> int \<Rightarrow> string option \<Rightarrow> uuid \<Rightarrow> http_error + patents_page" where
  "getPatents repo st workspace_id page limit search user_id =
     rethrow ''Failed to get patents: ''
       (getPatents_try repo st workspace_id page limit search user_id)"

record SearchRequest =
  sq_query :: string
  sq_filters :: "json option"
  sq_k :: "int option"
  sq_search_type :: "string option"

record SearchResponse =
  results :: "search_result list"
  total :: nat
  search_id :: string

definition generateSearchId :: "env \<Rightarrow> string" where
  "generateSearchId e = generateId ''search_'' e"

definition mock_search_result :: "nat \<times> Patent \<Rightarrow> search_result" where
  "mock_search_result ip =
     (case ip of (index, patent) \<Rightarrow>
       \<lparr> sr_patent_id = p_id patent,
         sr_score = 1 - of_nat index * (1 / 10),
         sr_search_type = ''hybrid'',
         sr_patent =
           \<lparr> sp_id = p_id patent, sp_title = p_title patent,
             sp_abstract = p_abstract patent, sp_prio_date = p_prio_date patent \<rparr> \<rparr>)"

definition getMockSearchResults ::
  "orm \<Rightarrow> db \<Rightarrow> string \<Rightarrow> uuid \<Rightarrow> int \<Rightarrow> search_result list" where
  "getMockSearchResults repo st query workspace_id k =
     map mock_search_result (enumerate 0 (find_take repo st workspace_id k))"

text \<open>The \<open>try\<close> block of \<open>searchPatents\<close>; the workspace is the \<open>x-workspace-id\<close>
  header, \<open>k\<close> defaults to 10 and \<open>search_type\<close> to \<open>hybrid\<close>. \<open>publishSearchEvent\<close> only
  writes to the console.\<close>

definition searchPatents_try ::
  "orm \<Rightarrow> env \<Rightarrow> db \<Rightarrow> SearchRequest \<Rightarrow> string option \<Rightarrow> uuid \<Rightarrow>
     http_error + (SearchResponse \<times> db)" where
  "searchPatents_try repo e st searchRequest header_workspace_id user_id =
     (let k = (case sq_k searchRequest of None \<Rightarrow> 10 | Some n \<Rightarrow> n);
          search_type =
            (case sq_search_type searchRequest of None \<Rightarrow> ''hybrid'' | Some t \<Rightarrow> t)
      in
      (case (if truthy header_workspace_id then header_workspace_id else None) of
         None \<Rightarrow> Inl (HttpException ''Workspace ID required'' BAD_REQUEST)
       | Some workspace_id \<Rightarrow>
           if \<not> hasWorkspaceAccess user_id workspace_id
           then Inl (HttpException ''Access denied to workspace'' FORBIDDEN)
           else
             (let sid = generateSearchId e;
                  mockResults =
                    getMockSearchResults repo st (sq_query searchRequest) workspace_id k;
                  st1 = st\<lparr>search_sessions := search_sessions st @
                    [\<lparr> s_workspace_id = workspace_id,
                       s_user_id = user_id,
                       s_query = sq_query searchRequest,
                       s_filters =
                         (case sq_filters searchRequest of None \<Rightarrow> JObj [] | Some f \<Rightarrow> f),
                       s_results = mockResults \<rparr>]\<rparr>;
                  st2 = save_audit st1
                    \<lparr> a_workspace_id = workspace_id,
                      a_user_id = user_id,
                      a_action = ''patent_search'',
                      a_resource_type = ''search'',
                      a_resource_id = None,
                      a_details = JObj
                        ([ (''query'', JStr (sq_query searchRequest)) ] @
                         opt_json id ''filters'' (sq_filters searchRequest) @
                         [ (''k'', JNum (of_int k)),
                           (''search_type'', JStr search_type),
                           (''search_id'', JStr sid) ]) \<rparr>
              in Inr
                (\<lparr> results = mockResults, total = length mockResults, search_id = sid \<rparr>,
                 st2))))"

definition searchPatents ::
  "orm \<Rightarrow> env \<Rightarrow> db \<Rightarrow> SearchRequest \<Rightarrow> string option \<Rightarrow> uuid \<Rightarrow>
     http_error + (SearchResponse \<times> db)" where
  "searchPatents repo e st searchRequest header_workspace_id user_id =
     rethrow ''Failed to search patents: ''
       (searchPatents_try repo e st searchRequest header_workspace_id user_id)"

record ChartRequest =
  hq_patent_id :: uuid
  hq_claim_num :: int
  hq_chart_type :: string
  hq_include_alignments :: "bool option"
  hq_include_novelty :: "bool option"
  hq_workspace_id :: uuid

record ChartResponse =
  chart_id :: string
  hr_patent_id :: uuid
  hr_claim_num :: int
  hr_chart_type :: string
  hr_file_url :: string
  hr_status :: string

definition generateChartId :: "env \<Rightarrow> string" where
  "generateChartId e = generateId ''chart_'' e"

definition getMockChart :: "uuid \<Rightarrow> int \<Rightarrow> string \<Rightarrow> string" where
  "getMockChart patent_id claim_num chart_type =
     ''https://storage.example.com/charts/mock_chart_'' @ patent_id @ ''_'' @
       show_int claim_num @ ''.'' @ chart_type"

text \<open>The \<open>try\<close> block of \<open>generateClaimChart\<close>; \<open>publishChartEvent\<close> only writes to
  the console.\<close>

definition generateClaimChart_try ::
  "env \<Rightarrow> db \<Rightarrow> ChartRequest \<Rightarrow> uuid \<Rightarrow> http_error + (ChartResponse \<times> db)" where
  "generateClaimChart_try e st chartRequest user_id =
     (if \<not> hasWorkspaceAccess user_id (hq_workspace_id chartRequest)
      then Inl (HttpException ''Access denied to workspace'' FORBIDDEN)
      else
        (case findOne_patent st (hq_patent_id chartRequest) (hq_workspace_id chartRequest) of
           None \<Rightarrow> Inl (HttpException ''Patent not found or access denied'' NOT_FOUND)
         | Some patent \<Rightarrow>
             (let cid = generateChartId e;
                  mockChart =
                    getMockChart (hq_patent_id chartRequest) (hq_claim_num chartRequest)
                      (hq_chart_type chartRequest);
                  st' = save_audit st
                    \<lparr> a_workspace_id = hq_workspace_id chartRequest,
                      a_user_id = user_id,
                      a_action = ''chart_generate'',
                      a_resource_type = ''chart'',
                      a_resource_id = None,
                      a_details = JObj
                        [ (''patent_id'', JStr (hq_patent_id chartRequest)),
                          (''claim_num'', JNum (of_int (hq_claim_num chartRequest))),
                          (''chart_type'', JStr (hq_chart_type chartRequest)),
                          (''chart_id'', JStr cid) ] \<rparr>
              in Inr
                (\<lparr> chart_id = cid,
                   hr_patent_id = hq_patent_id chartRequest,
                   hr_claim_num = hq_claim_num chartRequest,
                   hr_chart_type = hq_chart_type chartRequest,
                   hr_file_url = mockChart,
                   hr_status = ''completed'' \<rparr>, st'))))"

definition generateClaimChart ::
  "env \<Rightarrow> db \<Rightarrow> ChartRequest \<Rightarrow> uuid \<Rightarrow> http_error + (ChartResponse \<times> db)" where
  "generateClaimChart e st chartRequest user_id =
     rethrow ''Failed to generate chart: '' (generateClaimChart_try e st chartRequest user_id)"

record ExportRequest =
  xq_patent_ids :: "uuid list"
  xq_export_type :: string
  xq_include_charts :: "bool option"
  xq_include_alignments :: "bool option"
  xq_include_novelty :: "bool option"
  xq_workspace_id :: uuid

record ExportResponse =
  export_id :: string
  xr_patent_ids :: "uuid list"
  xr_export_type :: string
  xr_file_url :: string
  xr_status :: string

definition generateExportId :: "env \<Rightarrow> string" where
  "generateExportId e = generateId ''export_'' e"

text \<open>\<open>patent_ids.join('_')\<close>\<close>

fun join :: "string \<Rightarrow> string list \<Rightarrow> string" where
  "join sep [] = []"
| "join sep [x] = x"
| "join sep (x # y # ys) = x @ sep @ join sep (y # ys)"

definition getMockExport :: "uuid list \<Rightarrow> string \<Rightarrow> string" where
  "getMockExport patent_ids export_type =
     ''https://storage.example.com/exports/mock_export_'' @ join ''_'' patent_ids @
       ''.'' @ export_type"

text \<open>The loop of \<open>createExportBundle\<close> over the patent ids: the first id that names no
  patent of the workspace throws.\<close>

fun all_patents_exist :: "db \<Rightarrow> uuid \<Rightarrow> uuid list \<Rightarrow> http_error + unit" where
  "all_patents_exist st ws [] = Inr ()"
| "all_patents_exist st ws (patent_id # rest) =
     (case findOne_patent st patent_id ws of
        None \<Rightarrow>
          Inl (HttpException (''Patent '' @ patent_id @ '' not found or access denied'') NOT_FOUND)
      | Some patent \<Rightarrow> all_patents_exist st ws rest)"

text \<open>The \<open>try\<close> block of \<open>createExportBundle\<close>; \<open>publishExportEvent\<close> only writes to
  the console.\<close>

definition createExportBundle_try ::
  "env \<Rightarrow> db \<Rightarrow> ExportRequest \<Rightarrow> uuid \<Rightarrow> http_error + (ExportResponse \<times> db)" where
  "createExportBundle_try e st exportRequest user_id =
     (if \<not> hasWorkspaceAccess user_id (xq_workspace_id exportRequest)
      then Inl (HttpException ''Access denied to workspace'' FORBIDDEN)
      else
        (case all_patents_exist st (xq_workspace_id exportRequest) (xq_patent_ids exportRequest) of
           Inl err \<Rightarrow> Inl err
         | Inr u \<Rightarrow>
             (let xid = generateExportId e;
                  mockExport =
                    getMockExport (xq_patent_ids exportRequest) (xq_export_type exportRequest);
                  st' = save_audit st
                    \<lparr> a_workspace_id = xq_workspace_id exportRequest,
                      a_user_id = user_id,
                      a_action = ''export_bundle'',
                      a_resource_type = ''export'',
                      a_resource_id = None,
                      a_details = JObj
                        [ (''patent_ids'', JArr (map JStr (xq_patent_ids exportRequest))),
                          (''export_type'', JStr (xq_export_type exportRequest)),
                          (''export_id'', JStr xid) ] \<rparr>
              in Inr
                (\<lparr> export_id = xid,
                   xr_patent_ids = xq_patent_ids exportRequest,
                   xr_export_type = xq_export_type exportRequest,
                   xr_file_url = mockExport,
                   xr_status = ''completed'' \<rparr>, st'))))"

definition createExportBundle ::
  "env \<Rightarrow> db \<Rightarrow> ExportRequest \<Rightarrow> uuid \<Rightarrow> http_error + (ExportResponse \<times> db)" where
  "createExportBundle e st exportRequest user_id =
     rethrow ''Failed to create export bundle: ''
       (createExportBundle_try e st exportRequest user_id)"

section \<open>The workspace guard\<close>

text \<open>What \<open>WorkspaceGuard.canActivate\<close> reads of the request: the user the JWT guard
  attached (its id), the \<open>x-workspace-id\<close> header and the \<open>workspace_id\<close> of the body
  and of the query string.\<close>

record guard_request =
  g_user :: "uuid option"
  g_header_workspace_id :: "string option"
  g_body_workspace_id :: "string option"
  g_query_workspace_id :: "string option"

definition canActivate :: "db \<Rightarrow> guard_request \<Rightarrow> http_error + bool" where
  "canActivate st request =
     (let workspaceId =
            js_or (js_or (g_header_workspace_id request) (g_body_workspace_id request))
              (g_query_workspace_id request)
      in
      (case (g_user request, if truthy workspaceId then workspaceId else None) of
         (Some user_id, Some ws) \<Rightarrow>
           (case findOne_membership st user_id ws of
              None \<Rightarrow> Inl (HttpException ''Access denied to workspace'' FORBIDDEN)
            | Some membership \<Rightarrow> Inr True)
       | _ \<Rightarrow> Inl (HttpException ''User or workspace not specified'' FORBIDDEN)))"

section \<open>Notions the statements use\<close>

text \<open>The four labels the specification and the comment on \<open>Alignment.alignment_type\<close>
  name, and the closed unit interval.\<close>

definition spec_labels :: "string list" where
  "spec_labels = [''overlap'', ''paraphrase'', ''gap'', ''ambiguous'']"

definition unit_interval :: "rat \<Rightarrow> bool" where
  "unit_interval x = (0 \<le> x \<and> x \<le> 1)"

text \<open>The per-clause novelty in the words of the specification (section 4.5), for
  comparison with what \<open>getMockNovelty\<close> returns: one minus the largest combined score
  among the clause's alignments, clipped to the unit interval; 1 when the clause has no
  alignment.\<close>

fun spec_clause_novelty :: "rat list \<Rightarrow> rat" where
  "spec_clause_novelty [] = 1"
| "spec_clause_novelty (s # ss) = max 0 (min 1 (1 - fold max ss s))"

text \<open>The similarity scores of the alignments a compare response holds for one clause
  index.\<close>

definition aligned_scores :: "alignment list \<Rightarrow> nat \<Rightarrow> rat list" where
  "aligned_scores as k = map similarity_score (filter (\<lambda>a. clause_index a = k) as)"

text \<open>The \<open>Patent\<close> entity stores a priority date and no publication date, so the
  publication dates of the references are given from outside (\<open>pub\<close>). A reference is
  published after the priority date of the request's target patent when both dates are
  known and the publication is the later one.\<close>

definition published_after_priority ::
  "(uuid \<Rightarrow> timestamp option) \<Rightarrow> db \<Rightarrow> CompareRequest \<Rightarrow> uuid \<Rightarrow> bool" where
  "published_after_priority pub st rq ref_id =
     (case findOne_patent st (cq_patent_id rq) (cq_workspace_id rq) of
        None \<Rightarrow> False
      | Some target \<Rightarrow>
          (case (p_prio_date target, pub ref_id) of
             (Some prio, Some d) \<Rightarrow> prio < d
           | _ \<Rightarrow> False))"

text \<open>The stored clauses of claim number \<open>claim_num\<close> of a patent, and whether the
  per-clause detail of a novelty response has an entry for a clause.\<close>

definition clauses_of :: "db \<Rightarrow> uuid \<Rightarrow> int \<Rightarrow> Clause list" where
  "clauses_of st patent_id claim_num =
     filter (\<lambda>cl. list_ex (\<lambda>c. c_id c = cl_claim_id cl \<and> c_patent_id c = patent_id \<and>
                                c_claim_number c = claim_num) (claims st)) (clauses st)"

definition clause_accounted :: "NoveltyResponse \<Rightarrow> Clause \<Rightarrow> bool" where
  "clause_accounted out cl =
     list_ex (\<lambda>d. int (cd_clause_index d) = cl_clause_index cl) (clause_details out)"


definition erase_novelty_id ::
  "http_error + (NoveltyResponse \<times> db) \<Rightarrow> http_error + NoveltyResponse" where
  "erase_novelty_id r = map_sum id (\<lambda>(out, st'). out\<lparr>novelty_id := []\<rparr>) r"

text \<open>The exception of the access check in the handlers, which is also the one the
  guard throws when the membership lookup finds nothing.\<close>

definition access_denied :: http_error where
  "access_denied = HttpException ''Access denied to workspace'' FORBIDDEN"

section \<open>Example data\<close>

text \<open>A workspace \<open>w1\<close> with one member \<open>u1\<close> and two patents: the target \<open>p1\<close>
  (priority date 2020-01-01) and \<open>r1\<close> (priority date 2021-01-01). Claim 1 of \<open>p1\<close>
  has three clauses; no passage is stored.\<close>

definition target_patent :: Patent where
  "target_patent =
     \<lparr> p_id = ''p1'', p_workspace_id = ''w1'', p_pub_number = Some ''US-1'',
       p_prio_date = Some 1577836800000, p_family_id = None,
       p_title = ''Data processing method'', p_abstract = None,
       p_assignees = [], p_inventors = [], p_cpc_codes = [] \<rparr>"

definition later_patent :: Patent where
  "later_patent =
     \<lparr> p_id = ''r1'', p_workspace_id = ''w1'', p_pub_number = Some ''US-2'',
       p_prio_date = Some 1609459200000, p_family_id = None,
       p_title = ''Later data processing method'', p_abstract = None,
       p_assignees = [], p_inventors = [], p_cpc_codes = [] \<rparr>"

definition example_clause :: "int \<Rightarrow> string \<Rightarrow> Clause" where
  "example_clause i t =
     \<lparr> cl_id = ''cl'' @ show_int i, cl_claim_id = ''c1'', cl_clause_index = i,
       cl_clause_type = None, cl_text = t, cl_embedding = None \<rparr>"

definition example_db :: db where
  "example_db =
     \<lparr> patents = [target_patent, later_patent],
       claims =
         [\<lparr> c_id = ''c1'', c_patent_id = ''p1'', c_claim_number = 1, c_is_independent = True,
            c_text = ''A method comprising receiving, analyzing and storing data.'',
            c_embedding = None \<rparr>],
       clauses =
         [example_clause 0 ''receiving input data'',
          example_clause 1 ''analyzing the data'',
          example_clause 2 ''storing the result''],
       passages = [],
       memberships = [\<lparr> m_user_id = ''u1'', m_workspace_id = ''w1'', m_role = ''member'' \<rparr>],
       search_sessions = [],
       audit_log = [] \<rparr>"


text \<open>Two moments: the clock one millisecond apart, and different random texts.\<close>

definition example_env :: env where
  "example_env =
     \<lparr> e_now = 1700000000000, e_random36 = ''0.4fzyo82mvyr'', e_uuid = ''uuid-1'' \<rparr>"


definition example_compare_request :: CompareRequest where
  "example_compare_request =
     \<lparr> cq_patent_id = ''p1'', cq_claim_num = 1, cq_refs = [''r1'', ''r2''],
       cq_workspace_id = ''w1'' \<rparr>"


definition example_novelty_request :: NoveltyRequest where
  "example_novelty_request =
     \<lparr> nq_patent_id = ''p1'', nq_claim_num = 1, nq_workspace_id = ''w1'' \<rparr>"


text \<open>Publication dates for the references of \<open>example_compare_request\<close>: \<open>r1\<close> was
  published on 2021-07-01, after the priority date of \<open>p1\<close>; \<open>r2\<close> on 2010-01-01,
  before it.\<close>

definition example_pub :: "uuid \<Rightarrow> timestamp option" where
  "example_pub = map_of [(''r1'', 1625097600000), (''r2'', 1262304000000)]"

text \<open>A request as the guard sees it, from a user who is no member of \<open>w1\<close>, and an
  in-memory reading of the two paged queries.\<close>

definition outsider_request :: guard_request where
  "outsider_request =
     \<lparr> g_user = Some ''u2'', g_header_workspace_id = None,
       g_body_workspace_id = Some ''w1'', g_query_workspace_id = None \<rparr>"

definition memory_orm :: orm where
  "memory_orm =
     \<lparr> find_take = (\<lambda>st ws k. take (nat k) (filter (\<lambda>p. p_workspace_id p = ws) (patents st))),
       getManyAndCount = (\<lambda>st q.
         (let rows = filter (\<lambda>p. p_workspace_id p = q_workspace_id q) (patents st)
          in (take (nat (q_take q)) (drop (nat (q_skip q)) rows), length rows))) \<rparr>"

section \<open>What the two handlers return\<close>

text \<open>Both handlers fail exactly when the patent is not found in the workspace of the
  request; otherwise they answer with the mock result and append one audit row.\<close>

lemma comparePatent_cases:
  "comparePatent e st rq uid =
     (case findOne_patent st (cq_patent_id rq) (cq_workspace_id rq) of
        None \<Rightarrow> Inl (HttpException
          ''Failed to compare patent: Patent not found or access denied'' INTERNAL_SERVER_ERROR)
      | Some p \<Rightarrow> Inr
          (\<lparr> comparison_id = generateComparisonId e, cr_patent_id = cq_patent_id rq,
             cr_claim_num = cq_claim_num rq,
             alignments = getMockAlignments (cq_patent_id rq) (cq_claim_num rq) (cq_refs rq),
             cr_status = ''completed'' \<rparr>,
           save_audit st
             \<lparr> a_workspace_id = cq_workspace_id rq, a_user_id = uid,
               a_action = ''patent_compare'', a_resource_type = ''comparison'',
               a_resource_id = None,
               a_details = JObj
                 [ (''patent_id'', JStr (cq_patent_id rq)),
                   (''claim_num'', JNum (of_int (cq_claim_num rq))),
                   (''refs'', JArr (map JStr (cq_refs rq))),
                   (''comparison_id'', JStr (generateComparisonId e)) ] \<rparr>))"
  by (simp add: comparePatent_def comparePatent_try_def rethrow_def hasWorkspaceAccess_def
      Let_def split: option.splits)

lemma calculateNovelty_cases:
  "calculateNovelty e st rq uid =
     (case findOne_patent st (nq_patent_id rq) (nq_workspace_id rq) of
        None \<Rightarrow> Inl (HttpException
          ''Failed to calculate novelty: Patent not found or access denied'' INTERNAL_SERVER_ERROR)
      | Some p \<Rightarrow> Inr
          (\<lparr> novelty_id = generateNoveltyId e, nr_patent_id = nq_patent_id rq,
             nr_claim_num = nq_claim_num rq,
             novelty_score = 75 / 100, obviousness_score = 25 / 100,
             confidence_band = ''high'',
             clause_details =
               [ \<lparr> cd_clause_index = 0, cd_clause_text = ''Mock clause 1'',
                   cd_novelty_score = 8 / 10, cd_confidence = ''high'' \<rparr>,
                 \<lparr> cd_clause_index = 1, cd_clause_text = ''Mock clause 2'',
                   cd_novelty_score = 7 / 10, cd_confidence = ''medium'' \<rparr> ],
             nr_status = ''completed'' \<rparr>,
           save_audit st
             \<lparr> a_workspace_id = nq_workspace_id rq, a_user_id = uid,
               a_action = ''patent_novelty'', a_resource_type = ''novelty'',
               a_resource_id = None,
               a_details = JObj
                 [ (''patent_id'', JStr (nq_patent_id rq)),
                   (''claim_num'', JNum (of_int (nq_claim_num rq))),
                   (''novelty_id'', JStr (generateNoveltyId e)) ] \<rparr>))"
  by (simp add: calculateNovelty_def calculateNovelty_try_def rethrow_def hasWorkspaceAccess_def
      getMockNovelty_def Let_def split: option.splits)

lemma comparePatent_alignments:
  assumes "comparePatent e st rq uid = Inr (out, st')"
  shows "alignments out = getMockAlignments (cq_patent_id rq) (cq_claim_num rq) (cq_refs rq)"
  using assms by (auto simp: comparePatent_cases split: option.splits)

lemma calculateNovelty_response:
  assumes "calculateNovelty e st rq uid = Inr (out, st')"
  shows "out =
    \<lparr> novelty_id = generateNoveltyId e, nr_patent_id = nq_patent_id rq,
      nr_claim_num = nq_claim_num rq,
      novelty_score = 75 / 100, obviousness_score = 25 / 100,
      confidence_band = ''high'',
      clause_details =
        [ \<lparr> cd_clause_index = 0, cd_clause_text = ''Mock clause 1'',
            cd_novelty_score = 8 / 10, cd_confidence = ''high'' \<rparr>,
          \<lparr> cd_clause_index = 1, cd_clause_text = ''Mock clause 2'',
            cd_novelty_score = 7 / 10, cd_confidence = ''medium'' \<rparr> ],
      nr_status = ''completed'' \<rparr>"
  using assms by (auto simp: calculateNovelty_cases split: option.splits)

lemma example_target: "findOne_patent example_db ''p1'' ''w1'' = Some target_patent"
  by (simp add: findOne_patent_def example_db_def target_patent_def)

lemma example_compare_runs:
  "\<exists>out st'. comparePatent e example_db example_compare_request uid = Inr (out, st')"
  by (simp add: comparePatent_cases example_compare_request_def example_target)

lemma example_novelty_runs:
  "\<exists>out st'. calculateNovelty e example_db example_novelty_request uid = Inr (out, st')"
  by (simp add: calculateNovelty_cases example_novelty_request_def example_target)

lemma mock_alignments_index:
  "map clause_index (getMockAlignments pid cn refs) = [0..<length refs]"
  by (simp add: getMockAlignments_def mock_alignment_def comp_def case_prod_unfold
      map_fst_enumerate [symmetric, simplified comp_def])


lemma mock_alignments_all:
  "list_all P (getMockAlignments pid cn refs) =
     (\<forall>i<length refs. P (mock_alignment pid (i, refs ! i)))"
  by (auto simp: getMockAlignments_def list_all_iff in_set_enumerate_eq)

lemma mock_alignments_refs:
  "map reference_patent_id (getMockAlignments pid cn refs) = refs"
proof -
  have "reference_patent_id \<circ> mock_alignment pid = snd"
    by (auto simp: fun_eq_iff mock_alignment_def)
  then show ?thesis
    by (simp add: getMockAlignments_def)
qed

lemma mock_alignment_fields:
  "clause_index (mock_alignment pid (i, r)) = i"
  "reference_patent_id (mock_alignment pid (i, r)) = r"
  "similarity_score (mock_alignment pid (i, r)) = 8 / 10 - of_nat i * (1 / 10)"
  "alignment_type (mock_alignment pid (i, r)) =
     (if i = 0 then ''high_similarity'' else ''medium_similarity'')"
  by (simp_all add: mock_alignment_def)






section \<open>The example moments, and the claim's clauses\<close>


lemma example_clauses_of:
  "clauses_of example_db ''p1'' 1 =
     [example_clause 0 ''receiving input data'', example_clause 1 ''analyzing the data'',
      example_clause 2 ''storing the result'']"
  by (simp add: clauses_of_def example_db_def example_clause_def)

section \<open>The access check in each handler\<close>

lemma all_patents_exist_error:
  assumes "all_patents_exist st ws ids = Inl err"
  shows "\<exists>pid. err = HttpException (''Patent '' @ pid @ '' not found or access denied'') NOT_FOUND"
  using assms
  by (induction ids) (auto split: option.splits)

lemma ingest_never_denied:
  "ingestPatent_try e st iq uid \<noteq> Inl access_denied"
  "ingestPatent e st iq uid \<noteq>
     Inl (HttpException ''Failed to ingest patent: Access denied to workspace'' INTERNAL_SERVER_ERROR)"
  by (simp_all add: ingestPatent_def ingestPatent_try_def rethrow_def hasWorkspaceAccess_def
      access_denied_def Let_def)

lemma list_never_denied:
  "getPatents_try repo st ws page limit search uid \<noteq> Inl access_denied"
  "getPatents repo st ws page limit search uid \<noteq>
     Inl (HttpException ''Failed to get patents: Access denied to workspace'' INTERNAL_SERVER_ERROR)"
  by (simp_all add: getPatents_def getPatents_try_def rethrow_def hasWorkspaceAccess_def
      access_denied_def Let_def split: prod.splits)

lemma search_never_denied:
  "searchPatents_try repo e st sq hdr uid \<noteq> Inl access_denied"
  "searchPatents repo e st sq hdr uid \<noteq>
     Inl (HttpException ''Failed to search patents: Access denied to workspace'' INTERNAL_SERVER_ERROR)"
  by (simp_all add: searchPatents_def searchPatents_try_def rethrow_def hasWorkspaceAccess_def
      access_denied_def Let_def split: option.splits)

lemma compare_never_denied:
  "comparePatent_try e st cq uid \<noteq> Inl access_denied"
  "comparePatent e st cq uid \<noteq>
     Inl (HttpException ''Failed to compare patent: Access denied to workspace'' INTERNAL_SERVER_ERROR)"
  by (simp_all add: comparePatent_def comparePatent_try_def rethrow_def hasWorkspaceAccess_def
      access_denied_def Let_def split: option.splits)

lemma novelty_never_denied:
  "calculateNovelty_try e st nq uid \<noteq> Inl access_denied"
  "calculateNovelty e st nq uid \<noteq>
     Inl (HttpException ''Failed to calculate novelty: Access denied to workspace'' INTERNAL_SERVER_ERROR)"
  by (simp_all add: calculateNovelty_def calculateNovelty_try_def rethrow_def
      hasWorkspaceAccess_def access_denied_def Let_def split: option.splits)

lemma chart_never_denied:
  "generateClaimChart_try e st hq uid \<noteq> Inl access_denied"
  "generateClaimChart e st hq uid \<noteq>
     Inl (HttpException ''Failed to generate chart: Access denied to workspace'' INTERNAL_SERVER_ERROR)"
  by (simp_all add: generateClaimChart_def generateClaimChart_try_def rethrow_def
      hasWorkspaceAccess_def access_denied_def Let_def split: option.splits)

lemma export_never_denied:
  "createExportBundle_try e st xq uid \<noteq> Inl access_denied"
  "createExportBundle e st xq uid \<noteq>
     Inl (HttpException ''Failed to create export bundle: Access denied to workspace''
            INTERNAL_SERVER_ERROR)"
  by (auto simp: createExportBundle_def createExportBundle_try_def rethrow_def
      hasWorkspaceAccess_def access_denied_def Let_def
      split: sum.splits dest!: all_patents_exist_error)

lemma guard_denies_iff:
  "canActivate st request = Inl access_denied \<longleftrightarrow>
     (\<exists>user_id ws.
        g_user request = Some user_id
      \<and> js_or (js_or (g_header_workspace_id request) (g_body_workspace_id request))
           (g_query_workspace_id request) = Some ws
      \<and> ws \<noteq> []
      \<and> findOne_membership st user_id ws = None)"
  by (cases "js_or (js_or (g_header_workspace_id request) (g_body_workspace_id request))
           (g_query_workspace_id request)")
     (auto simp: canActivate_def access_denied_def Let_def split: option.splits if_splits)

section \<open>Alignment labels (C1)\<close>

text \<open>
  Claim C1 says that every alignment of a compare response carries one of the four labels
  overlap, paraphrase, gap, ambiguous, assigned by a classifier from a combined score and
  a lexical ratio. The code has no such classifier: \<open>getMockAlignments\<close> labels an
  alignment by its position in \<open>refs\<close> alone. Claim C1 as amended: every alignment of a
  compare response carries exactly one label, \<open>high_similarity\<close> for the first reference
  and \<open>medium_similarity\<close> for every later one; none of them is one of the four labels
  of the specification.
\<close>

theorem compare_alignment_type_by_position:
  assumes "comparePatent e st rq uid = Inr (out, st')"
  shows "list_all (\<lambda>a. alignment_type a =
            (if clause_index a = 0 then ''high_similarity'' else ''medium_similarity''))
           (alignments out)
       \<and> list_all (\<lambda>a. alignment_type a \<notin> set spec_labels) (alignments out)
       \<and> map clause_index (alignments out) = [0..<length (cq_refs rq)]"
  unfolding comparePatent_alignments [OF assms]
  by (simp add: mock_alignments_all mock_alignment_fields mock_alignments_index spec_labels_def)

text \<open>The amended statement at the example request with two references.\<close>

theorem compare_alignment_type_witness:
  "\<exists>out st'. comparePatent example_env example_db example_compare_request ''u1'' = Inr (out, st')
     \<and> list_all (\<lambda>a. alignment_type a =
            (if clause_index a = 0 then ''high_similarity'' else ''medium_similarity''))
           (alignments out)
     \<and> map clause_index (alignments out) = [0, 1]"
proof -
  obtain out st' where
    run: "comparePatent example_env example_db example_compare_request ''u1'' = Inr (out, st')"
    using example_compare_runs by blast
  have "length (cq_refs example_compare_request) = 2"
    by (simp add: example_compare_request_def)
  with compare_alignment_type_by_position [OF run] run show ?thesis
    by (auto simp: upt_rec)
qed

text \<open>Claim C1 as stated fails at the example request: the two labels returned are
  \<open>high_similarity\<close> and \<open>medium_similarity\<close>.\<close>

theorem compare_alignment_type_counterexample:
  "(case comparePatent example_env example_db example_compare_request ''u1'' of
      Inl err \<Rightarrow> False
    | Inr (out, st') \<Rightarrow>
        map alignment_type (alignments out) = [''high_similarity'', ''medium_similarity'']
        \<and> \<not> list_all (\<lambda>a. alignment_type a \<in> set spec_labels) (alignments out))"
  by (simp add: comparePatent_cases example_compare_request_def example_target
      getMockAlignments_def mock_alignment_fields spec_labels_def)

section \<open>Similarity scores (C2)\<close>




section \<open>Novelty scores (C3)\<close>

text \<open>
  Claim C3 says that the claim-level novelty and every per-clause novelty of a novelty
  response lie in the unit interval, the per-clause novelty being one minus the largest
  combined similarity among the clause's alignments, clipped. The bounds hold; the
  formula does not, since \<open>getMockNovelty\<close> returns constants. Claim C3 as amended: for
  every scored claim the claim-level novelty score and every per-clause novelty score of
  the response lie in the unit interval; the per-clause scores are the constants 0.8 and
  0.7.
\<close>

theorem novelty_scores_in_unit_interval:
  assumes "calculateNovelty e st rq uid = Inr (out, st')"
  shows "unit_interval (novelty_score out)
       \<and> list_all (\<lambda>d. unit_interval (cd_novelty_score d)) (clause_details out)
       \<and> map cd_novelty_score (clause_details out) = [8 / 10, 7 / 10]"
  unfolding calculateNovelty_response [OF assms]
  by (simp add: unit_interval_def)

text \<open>The amended statement at the example request.\<close>

theorem novelty_scores_in_unit_interval_witness:
  "\<exists>out st'. calculateNovelty example_env example_db example_novelty_request ''u1'' = Inr (out, st')
     \<and> unit_interval (novelty_score out)
     \<and> list_all (\<lambda>d. unit_interval (cd_novelty_score d)) (clause_details out)"
proof -
  obtain out st' where
    run: "calculateNovelty example_env example_db example_novelty_request ''u1'' = Inr (out, st')"
    using example_novelty_runs by blast
  from novelty_scores_in_unit_interval [OF run] run show ?thesis by blast
qed

text \<open>The formula of claim C3 fails at the example claim. The novelty response gives
  the clauses 0 and 1 the scores 0.8 and 0.7. One minus the largest similarity of the
  alignments that compare returns for these clauses (0.8 and 0.7) is 0.2 and 0.3, and
  for a clause without alignment the formula gives 1.\<close>

theorem clause_novelty_formula_counterexample:
  "(case (calculateNovelty example_env example_db example_novelty_request ''u1'',
          comparePatent example_env example_db example_compare_request ''u1'') of
      (Inr (nov, st1), Inr (cmp, st2)) \<Rightarrow>
        map cd_novelty_score (clause_details nov) = [4 / 5, 7 / 10]
        \<and> map (\<lambda>d. spec_clause_novelty (aligned_scores (alignments cmp) (cd_clause_index d)))
              (clause_details nov) = [1 / 5, 3 / 10]
        \<and> map (\<lambda>d. spec_clause_novelty []) (clause_details nov) = [1, 1]
    | _ \<Rightarrow> False)"
  by (simp add: calculateNovelty_cases comparePatent_cases example_novelty_request_def
      example_compare_request_def example_target getMockAlignments_def mock_alignment_fields
      aligned_scores_def)

section \<open>No qualifying passages (C4)\<close>

text \<open>
  Claim C4 says that a novelty request over a clause with no qualifying passage is
  answered, with clause novelty 1, low confidence and an explicit flag. The handler reads
  no passage and no reference. Claim C4 as amended: every novelty request that names a
  patent of its workspace is answered and not an error, whatever passages are stored,
  none included; its two clause entries carry novelty 0.8 with confidence \<open>high\<close> and
  0.7 with confidence \<open>medium\<close>, the band is \<open>high\<close>, and replacing the stored passages
  changes nothing in the response beyond the generated id, which does not depend on them
  either. The response type has no field for an evidence flag.
\<close>

theorem novelty_without_evidence:
  assumes "findOne_patent st (nq_patent_id rq) (nq_workspace_id rq) = Some p"
  shows "(\<exists>out st'. calculateNovelty e st rq uid = Inr (out, st')
            \<and> map cd_novelty_score (clause_details out) = [8 / 10, 7 / 10]
            \<and> map cd_confidence (clause_details out) = [''high'', ''medium'']
            \<and> confidence_band out = ''high'')
       \<and> erase_novelty_id (calculateNovelty e (st\<lparr>passages := ps\<rparr>) rq uid) =
           erase_novelty_id (calculateNovelty e st rq uid)"
  using assms
  by (simp add: calculateNovelty_cases erase_novelty_id_def findOne_patent_def)

text \<open>The amended statement at the example database, which stores no passage.\<close>

theorem novelty_without_evidence_witness:
  "passages example_db = []
   \<and> (\<exists>out st'. calculateNovelty example_env example_db example_novelty_request ''u1'' = Inr (out, st')
         \<and> map cd_novelty_score (clause_details out) = [8 / 10, 7 / 10]
         \<and> map cd_confidence (clause_details out) = [''high'', ''medium'']
         \<and> confidence_band out = ''high'')"
proof -
  have found: "findOne_patent example_db (nq_patent_id example_novelty_request)
      (nq_workspace_id example_novelty_request) = Some target_patent"
    by (simp add: example_novelty_request_def example_target)
  have "passages example_db = []" by (simp add: example_db_def)
  with novelty_without_evidence [OF found, of example_env "''u1''" "[]"] show ?thesis
    by blast
qed

text \<open>Claim C4 as stated fails there: no clause has novelty 1 or confidence \<open>low\<close>.\<close>

theorem insufficient_evidence_counterexample:
  "passages example_db = []
   \<and> (case calculateNovelty example_env example_db example_novelty_request ''u1'' of
        Inl err \<Rightarrow> False
      | Inr (out, st') \<Rightarrow>
          map cd_novelty_score (clause_details out) = [4 / 5, 7 / 10]
          \<and> map cd_confidence (clause_details out) = [''high'', ''medium'']
          \<and> \<not> list_ex (\<lambda>d. cd_novelty_score d = 1 \<or> cd_confidence d = ''low'')
                (clause_details out))"
proof -
  have "passages example_db = []" by (simp add: example_db_def)
  then show ?thesis
    by (simp add: calculateNovelty_cases example_novelty_request_def example_target)
qed

section \<open>References after the priority date (C5)\<close>

text \<open>
  Claim C5 says that no alignment of a compare response names a reference published
  after the priority date of the target, such references being left out. The handler
  filters nothing. Claim C5 as amended: a compare response holds exactly one alignment
  for each reference id of the request, in the order of the request, whatever the dates;
  in particular every reference published after the target's priority date has its
  alignment.
\<close>

theorem compare_keeps_every_reference:
  assumes "comparePatent e st rq uid = Inr (out, st')"
  shows "map reference_patent_id (alignments out) = cq_refs rq
       \<and> list_all (\<lambda>r. list_ex (\<lambda>a. reference_patent_id a = r) (alignments out))
           (filter (published_after_priority pub st rq) (cq_refs rq))"
proof -
  have refs: "map reference_patent_id (alignments out) = cq_refs rq"
    unfolding comparePatent_alignments [OF assms] mock_alignments_refs ..
  have "\<exists>a\<in>set (alignments out). reference_patent_id a = r" if "r \<in> set (cq_refs rq)" for r
  proof -
    from that have "r \<in> reference_patent_id ` set (alignments out)"
      unfolding refs [symmetric] by simp
    then show ?thesis by auto
  qed
  then show ?thesis
    using refs by (simp add: list_all_iff list_ex_iff)
qed

text \<open>The amended statement at the example request, whose first reference \<open>r1\<close> was
  published after the priority date of \<open>p1\<close>.\<close>

theorem compare_keeps_every_reference_witness:
  "\<exists>out st'. comparePatent example_env example_db example_compare_request ''u1'' = Inr (out, st')
     \<and> map reference_patent_id (alignments out) = [''r1'', ''r2'']
     \<and> list_all (\<lambda>r. list_ex (\<lambda>a. reference_patent_id a = r) (alignments out))
         (filter (published_after_priority example_pub example_db example_compare_request)
            [''r1'', ''r2''])"
proof -
  obtain out st' where
    run: "comparePatent example_env example_db example_compare_request ''u1'' = Inr (out, st')"
    using example_compare_runs by blast
  have "cq_refs example_compare_request = [''r1'', ''r2'']"
    by (simp add: example_compare_request_def)
  with compare_keeps_every_reference [OF run, of example_pub] run show ?thesis
    by auto
qed

text \<open>Claim C5 as stated fails there: the response holds an alignment for \<open>r1\<close>.\<close>

theorem priority_date_invariant_counterexample:
  "(case comparePatent example_env example_db example_compare_request ''u1'' of
      Inl err \<Rightarrow> False
    | Inr (out, st') \<Rightarrow>
        published_after_priority example_pub example_db example_compare_request ''r1''
        \<and> list_ex (\<lambda>a. reference_patent_id a = ''r1'') (alignments out)
        \<and> \<not> list_all (\<lambda>a. \<not> published_after_priority example_pub example_db
                  example_compare_request (reference_patent_id a)) (alignments out))"
  by (simp add: comparePatent_cases example_compare_request_def example_target
      getMockAlignments_def mock_alignment_fields published_after_priority_def
      example_pub_def target_patent_def)

section \<open>Obviousness against novelty (C6)\<close>

text \<open>
  Claim C6: for every scored claim the obviousness score is at most one minus the
  claim-level novelty plus the slack. The controller has no configuration, so the slack
  is any tolerance that is not negative; the mock scores are 0.25 and 0.75, so the
  bound holds with equality at slack 0 and no discrepancy flag is needed.
\<close>

theorem obviousness_within_slack:
  assumes "calculateNovelty e st rq uid = Inr (out, st')" and "0 \<le> slack"
  shows "obviousness_score out \<le> (1 - novelty_score out) + slack
       \<and> obviousness_score out = 1 - novelty_score out"
  unfolding calculateNovelty_response [OF assms(1)] using assms(2) by simp

text \<open>The statement at the example request with a slack of 0.05.\<close>

theorem obviousness_within_slack_witness:
  "\<exists>out st'. calculateNovelty example_env example_db example_novelty_request ''u1'' = Inr (out, st')
     \<and> (0::rat) \<le> 5 / 100
     \<and> obviousness_score out \<le> (1 - novelty_score out) + 5 / 100"
proof -
  obtain out st' where
    run: "calculateNovelty example_env example_db example_novelty_request ''u1'' = Inr (out, st')"
    using example_novelty_runs by blast
  have slack: "(0::rat) \<le> 5 / 100" by simp
  from obviousness_within_slack [OF run slack] run slack show ?thesis by blast
qed

section \<open>Determinism (C7)\<close>




section \<open>Clauses of the scored claim (C8)\<close>

text \<open>
  Claim C8 says that a novelty result accounts for every clause of its claim, by an
  alignment or by an explicit record of missing coverage. The handler reads no clause.
  Claim C8 as amended: every novelty response lists exactly two clause entries, for the
  clause indices 0 and 1, whatever clauses the claim has; a clause has an entry exactly
  when its index is 0 or 1. The response type has no field for an alignment, for missing
  coverage or for a partial result.
\<close>

theorem novelty_lists_two_clauses:
  assumes "calculateNovelty e st rq uid = Inr (out, st')"
  shows "map cd_clause_index (clause_details out) = [0, 1]
       \<and> (clause_accounted out cl \<longleftrightarrow> cl_clause_index cl = 0 \<or> cl_clause_index cl = 1)"
  unfolding calculateNovelty_response [OF assms]
  by (auto simp: clause_accounted_def)

text \<open>The amended statement at the example request: the second clause of the claim has
  an entry, the third has none.\<close>

theorem novelty_lists_two_clauses_witness:
  "\<exists>out st'. calculateNovelty example_env example_db example_novelty_request ''u1'' = Inr (out, st')
     \<and> map cd_clause_index (clause_details out) = [0, 1]
     \<and> clause_accounted out (example_clause 1 ''analyzing the data'')
     \<and> \<not> clause_accounted out (example_clause 2 ''storing the result'')"
proof -
  obtain out st' where
    run: "calculateNovelty example_env example_db example_novelty_request ''u1'' = Inr (out, st')"
    using example_novelty_runs by blast
  from novelty_lists_two_clauses [OF run, of "example_clause 1 ''analyzing the data''"]
    novelty_lists_two_clauses [OF run, of "example_clause 2 ''storing the result''"] run
  show ?thesis
    by (auto simp: example_clause_def)
qed

text \<open>Claim C8 as stated fails at the example claim, which has three clauses.\<close>

theorem clause_coverage_counterexample:
  "(case calculateNovelty example_env example_db example_novelty_request ''u1'' of
      Inl err \<Rightarrow> False
    | Inr (out, st') \<Rightarrow>
        map cl_clause_index (clauses_of example_db (nr_patent_id out) (nr_claim_num out)) = [0, 1, 2]
        \<and> map cd_clause_index (clause_details out) = [0, 1]
        \<and> \<not> list_all (clause_accounted out)
              (clauses_of example_db (nr_patent_id out) (nr_claim_num out)))"
  by (simp add: calculateNovelty_cases example_novelty_request_def example_target
      example_clauses_of clause_accounted_def example_clause_def)

section \<open>The novelty response is fixed (C9)\<close>



section \<open>The access check of the controller (C10)\<close>

text \<open>
  Claim C10: \<open>hasWorkspaceAccess\<close> is true for every user and workspace, so the
  \<open>Access denied to workspace\<close> branch is never taken in the handlers for ingest, list,
  search, compare, novelty, chart and export: no \<open>try\<close> block throws that exception and
  no handler answers with its rethrown form. The guard throws it exactly when user and
  workspace are given and the membership lookup finds nothing.
\<close>

theorem access_denied_only_from_guard:
  "hasWorkspaceAccess user_id workspace_id
   \<and> ingestPatent_try e st iq uid \<noteq> Inl access_denied
   \<and> getPatents_try repo st ws page limit search uid \<noteq> Inl access_denied
   \<and> searchPatents_try repo e st sq hdr uid \<noteq> Inl access_denied
   \<and> comparePatent_try e st cq uid \<noteq> Inl access_denied
   \<and> calculateNovelty_try e st nq uid \<noteq> Inl access_denied
   \<and> generateClaimChart_try e st hq uid \<noteq> Inl access_denied
   \<and> createExportBundle_try e st xq uid \<noteq> Inl access_denied
   \<and> ingestPatent e st iq uid \<noteq>
       Inl (HttpException ''Failed to ingest patent: Access denied to workspace''
              INTERNAL_SERVER_ERROR)
   \<and> getPatents repo st ws page limit search uid \<noteq>
       Inl (HttpException ''Failed to get patents: Access denied to workspace''
              INTERNAL_SERVER_ERROR)
   \<and> searchPatents repo e st sq hdr uid \<noteq>
       Inl (HttpException ''Failed to search patents: Access denied to workspace''
              INTERNAL_SERVER_ERROR)
   \<and> comparePatent e st cq uid \<noteq>
       Inl (HttpException ''Failed to compare patent: Access denied to workspace''
              INTERNAL_SERVER_ERROR)
   \<and> calculateNovelty e st nq uid \<noteq>
       Inl (HttpException ''Failed to calculate novelty: Access denied to workspace''
              INTERNAL_SERVER_ERROR)
   \<and> generateClaimChart e st hq uid \<noteq>
       Inl (HttpException ''Failed to generate chart: Access denied to workspace''
              INTERNAL_SERVER_ERROR)
   \<and> createExportBundle e st xq uid \<noteq>
       Inl (HttpException ''Failed to create export bundle: Access denied to workspace''
              INTERNAL_SERVER_ERROR)
   \<and> (canActivate st request = Inl access_denied \<longleftrightarrow>
        (\<exists>member ws'.
           g_user request = Some member
         \<and> js_or (js_or (g_header_workspace_id request) (g_body_workspace_id request))
              (g_query_workspace_id request) = Some ws'
         \<and> ws' \<noteq> []
         \<and> findOne_membership st member ws' = None))"
  using ingest_never_denied [of e st iq uid] list_never_denied [of repo st ws page limit search uid]
    search_never_denied [of repo e st sq hdr uid] compare_never_denied [of e st cq uid]
    novelty_never_denied [of e st nq uid] chart_never_denied [of e st hq uid]
    export_never_denied [of e st xq uid] guard_denies_iff [of st request]
  by (simp add: hasWorkspaceAccess_def)

text \<open>The statement at the example database, for a user who is no member of \<open>w1\<close>.\<close>

theorem access_denied_only_from_guard_witness:
  "hasWorkspaceAccess ''u2'' ''w1''
   \<and> comparePatent_try example_env example_db example_compare_request ''u2'' \<noteq> Inl access_denied
   \<and> calculateNovelty_try example_env example_db example_novelty_request ''u2'' \<noteq> Inl access_denied
   \<and> getPatents_try memory_orm example_db ''w1'' 1 20 None ''u2'' \<noteq> Inl access_denied
   \<and> (\<exists>out st'. comparePatent example_env example_db example_compare_request ''u2'' = Inr (out, st'))
   \<and> canActivate example_db outsider_request = Inl access_denied"
proof -
  have "g_user outsider_request = Some ''u2''
      \<and> js_or (js_or (g_header_workspace_id outsider_request)
             (g_body_workspace_id outsider_request))
           (g_query_workspace_id outsider_request) = Some ''w1''
      \<and> ''w1'' \<noteq> []
      \<and> findOne_membership example_db ''u2'' ''w1'' = None"
    by (simp add: outsider_request_def js_or_def findOne_membership_def example_db_def)
  then show ?thesis
    using access_denied_only_from_guard
      [where user_id = "''u2''" and workspace_id = "''w1''" and e = example_env
         and st = example_db and uid = "''u2''" and cq = example_compare_request
         and nq = example_novelty_request and repo = memory_orm and ws = "''w1''"
         and page = 1 and limit = 20 and search = None and request = outsider_request]
      example_compare_runs [of example_env "''u2''"]
    by blast
qed

end
